theory Spec2Isabelle
  imports Complex_Main
begin

section \<open>Data model (types.ts, macroProcessor.ts)\<close>

text \<open>
  JavaScript numbers are modelled as exact reals: every value is finite and arithmetic
  does not round. Field names follow the source; where two interfaces share a field
  name (\<open>enabled\<close>, \<open>release\<close>, \<open>width\<close>) the later record carries a short prefix.
\<close>

datatype StemRole =
  KICK | SNARE | HIHAT | DRUMS | PERCUSSION | BASS | LEAD | PAD
  | ARPEGGIO | VOCAL | HARMONY | FX | OTHER

record MixerSettings =
  previewLUFS :: real
  streamLUFS :: real
  peakCeiling :: real
  punch :: real
  warmth :: real
  clarity :: real
  air :: real
  width :: real
  reverb :: real

datatype BandType = bell | highshelf | lowshelf | highpass | lowpass

record EQBand =
  frequency :: real
  gain :: real
  q :: real
  band_type :: BandType
  eq_enabled :: bool

record CompressionSettings =
  threshold :: real
  ratio :: real
  attack :: real
  release :: real
  makeupGain :: real
  comp_enabled :: bool

datatype Character = tube | tape | transistor

record SaturationSettings =
  drive :: real
  character :: Character
  mix :: real
  sat_enabled :: bool

record StereoWidthSettings =
  sw_width :: real
  bassMonoFreq :: real
  sideLowCut :: real
  sw_enabled :: bool

record LimiterSettings =
  ceiling :: real
  lim_release :: real
  lookahead :: real
  lim_enabled :: bool

record MacroProcessingResult =
  eqCurve :: "EQBand list"
  compression :: CompressionSettings
  saturation :: SaturationSettings
  stereoWidth :: StereoWidthSettings
  limiterSettings :: LimiterSettings
  reverbSend :: real

section \<open>MacroProcessor\<close>

definition mapRange :: "real \<Rightarrow> real \<Rightarrow> real \<Rightarrow> real \<Rightarrow> real \<Rightarrow> real" where
  "mapRange v inMin inMax outMin outMax =
     outMin + (v - inMin) * (outMax - outMin) / (inMax - inMin)"

definition isPercussive :: "StemRole option \<Rightarrow> bool" where
  "isPercussive role =
     (role = Some KICK \<or> role = Some SNARE \<or> role = Some DRUMS
      \<or> role = Some PERCUSSION \<or> role = Some HIHAT)"

definition getDefaultCompression :: CompressionSettings where
  "getDefaultCompression =
     \<lparr>threshold = 0, ratio = 1, attack = 30, release = 100, makeupGain = 0,
      comp_enabled = False\<rparr>"

definition getDefaultSaturation :: SaturationSettings where
  "getDefaultSaturation = \<lparr>drive = 0, character = tube, mix = 0, sat_enabled = False\<rparr>"

definition getDefaultStereoWidth :: StereoWidthSettings where
  "getDefaultStereoWidth =
     \<lparr>sw_width = 100, bassMonoFreq = 120, sideLowCut = 100, sw_enabled = False\<rparr>"

definition getDefaultLimiter :: LimiterSettings where
  "getDefaultLimiter =
     \<lparr>ceiling = - (1 / 10), lim_release = 50, lookahead = 5, lim_enabled = True\<rparr>"

text \<open>
  \<open>processSettingsToChain\<close> builds the result object and mutates it block by block;
  each \<open>result\<close> below is the object after the corresponding block of the source.
\<close>

definition processSettingsToChain ::
    "MixerSettings \<Rightarrow> StemRole option \<Rightarrow> MacroProcessingResult" where
  "processSettingsToChain settings stemRole =
    (let result = \<lparr>eqCurve = [], compression = getDefaultCompression,
                    saturation = getDefaultSaturation,
                    stereoWidth = getDefaultStereoWidth,
                    limiterSettings = getDefaultLimiter,
                    reverbSend = reverb settings\<rparr>;
         \<comment> \<open>1) CLARITY\<close>
         result =
           (if clarity settings > 0 then
              (let clarityGain = mapRange (clarity settings) 0 100 0 4;
                   result = result\<lparr>eqCurve := eqCurve result @
                     [\<lparr>frequency = 8000, gain = clarityGain, q = 7 / 10,
                       band_type = highshelf, eq_enabled = True\<rparr>]\<rparr>
               in if clarity settings > 50 then
                    (let mudCut = mapRange (clarity settings) 50 100 0 (- 2)
                     in result\<lparr>eqCurve := eqCurve result @
                          [\<lparr>frequency = 350, gain = mudCut, q = 12 / 10,
                            band_type = bell, eq_enabled = True\<rparr>]\<rparr>)
                  else result)
            else result);
         \<comment> \<open>2) PUNCH\<close>
         result =
           (if punch settings > 0 then
              result\<lparr>compression :=
                \<lparr>threshold = mapRange (punch settings) 0 100 (- 3) (- 15),
                 ratio = mapRange (punch settings) 0 100 (13 / 10) (21 / 10),
                 attack = (if isPercussive stemRole
                           then mapRange (punch settings) 0 100 30 10
                           else mapRange (punch settings) 0 100 30 15),
                 release = mapRange (punch settings) 0 100 50 150,
                 makeupGain = mapRange (punch settings) 0 100 0 3,
                 comp_enabled = (punch settings > 5)\<rparr>\<rparr>
            else result);
         \<comment> \<open>3) WARMTH\<close>
         result =
           (if warmth settings > 0 then
              (let lowBoost = mapRange (warmth settings) 0 100 0 2;
                   result = result\<lparr>eqCurve := eqCurve result @
                     [\<lparr>frequency = 160, gain = lowBoost, q = 7 / 10,
                       band_type = lowshelf, eq_enabled = True\<rparr>]\<rparr>;
                   midCut = mapRange (warmth settings) 0 100 0 (- 3);
                   result = result\<lparr>eqCurve := eqCurve result @
                     [\<lparr>frequency = 4000, gain = midCut, q = 1,
                       band_type = bell, eq_enabled = True\<rparr>]\<rparr>
               in result\<lparr>saturation :=
                    \<lparr>drive = mapRange (warmth settings) 0 100 0 2,
                     character = tube,
                     mix = mapRange (warmth settings) 0 100 0 25,
                     sat_enabled = (warmth settings > 10)\<rparr>\<rparr>)
            else result);
         \<comment> \<open>4) WIDTH\<close>
         result =
           (if width settings \<noteq> 0 then
              result\<lparr>stereoWidth :=
                \<lparr>sw_width = mapRange (width settings) 0 100 50 150,
                 bassMonoFreq = 120, sideLowCut = 100, sw_enabled = True\<rparr>\<rparr>
            else result);
         \<comment> \<open>5) AIR\<close>
         result =
           (if air settings \<noteq> 0 then
              (let airGain = mapRange (air settings) 0 100 0 3
               in result\<lparr>eqCurve := eqCurve result @
                    [\<lparr>frequency = 14000, gain = airGain, q = 5 / 10,
                      band_type = highshelf, eq_enabled = True\<rparr>]\<rparr>)
            else result);
         \<comment> \<open>6) GLUE\<close>
         result =
           (if punch settings > 0 then
              (let result = result\<lparr>compression := (compression result)
                              \<lparr>attack := max (attack (compression result)) 20\<rparr>\<rparr>;
                   result = result\<lparr>compression := (compression result)
                              \<lparr>release := max (release (compression result)) 100\<rparr>\<rparr>;
                   result = result\<lparr>saturation := (saturation result)
                              \<lparr>drive := max (drive (saturation result)) (5 / 10)\<rparr>\<rparr>
               in result\<lparr>saturation := (saturation result)\<lparr>character := tape\<rparr>\<rparr>)
            else result)
     in result)"

definition enhanceForKick ::
    "MacroProcessingResult \<Rightarrow> MixerSettings \<Rightarrow> MacroProcessingResult" where
  "enhanceForKick chain settings =
    (let chain = chain\<lparr>eqCurve :=
           \<lparr>frequency = 60, gain = mapRange (punch settings) 0 100 0 2, q = 1,
            band_type = bell, eq_enabled = True\<rparr> # eqCurve chain\<rparr>;
         chain =
           (if clarity settings > 50 then
              chain\<lparr>eqCurve := eqCurve chain @
                [\<lparr>frequency = 4000,
                  gain = mapRange (clarity settings) 50 100 0 (15 / 10),
                  q = 15 / 10, band_type = bell, eq_enabled = True\<rparr>]\<rparr>
            else chain);
         chain = chain\<lparr>compression := (compression chain)
                   \<lparr>attack := min (attack (compression chain)) 5\<rparr>\<rparr>;
         chain = chain\<lparr>compression := (compression chain)
                   \<lparr>ratio := max (ratio (compression chain)) 3\<rparr>\<rparr>
     in chain)"

definition enhanceForSnare ::
    "MacroProcessingResult \<Rightarrow> MixerSettings \<Rightarrow> MacroProcessingResult" where
  "enhanceForSnare chain settings =
    (let chain = chain\<lparr>eqCurve :=
           \<lparr>frequency = 250, gain = mapRange (punch settings) 0 100 0 2,
            q = 12 / 10, band_type = bell, eq_enabled = True\<rparr> # eqCurve chain\<rparr>
     in if clarity settings > 30 then
          chain\<lparr>eqCurve := eqCurve chain @
            [\<lparr>frequency = 5000, gain = mapRange (clarity settings) 30 100 0 3,
              q = 2, band_type = bell, eq_enabled = True\<rparr>]\<rparr>
        else chain)"

definition enhanceForBass ::
    "MacroProcessingResult \<Rightarrow> MixerSettings \<Rightarrow> MacroProcessingResult" where
  "enhanceForBass chain settings =
    (let chain = chain\<lparr>stereoWidth := (stereoWidth chain)
                   \<lparr>sw_width := min (sw_width (stereoWidth chain)) 100\<rparr>\<rparr>;
         chain = chain\<lparr>eqCurve :=
           \<lparr>frequency = 100, gain = mapRange (warmth settings) 0 100 0 2, q = 1,
            band_type = bell, eq_enabled = True\<rparr> # eqCurve chain\<rparr>
     in if clarity settings > 40 then
          chain\<lparr>eqCurve := eqCurve chain @
            [\<lparr>frequency = 800,
              gain = mapRange (clarity settings) 40 100 0 (15 / 10),
              q = 1, band_type = bell, eq_enabled = True\<rparr>]\<rparr>
        else chain)"

definition enhanceForVocal ::
    "MacroProcessingResult \<Rightarrow> MixerSettings \<Rightarrow> MacroProcessingResult" where
  "enhanceForVocal chain settings =
    (let chain = chain\<lparr>eqCurve :=
           \<lparr>frequency = 3000, gain = mapRange (clarity settings) 0 100 0 3,
            q = 12 / 10, band_type = bell,
            eq_enabled = (clarity settings > 20)\<rparr> # eqCurve chain\<rparr>;
         chain =
           (if clarity settings > 70 then
              chain\<lparr>eqCurve := eqCurve chain @
                [\<lparr>frequency = 7000, gain = - (15 / 10), q = 2,
                  band_type = bell, eq_enabled = True\<rparr>]\<rparr>
            else chain);
         chain = chain\<lparr>compression := (compression chain)
                   \<lparr>threshold := max (threshold (compression chain)) (- 12)\<rparr>\<rparr>;
         chain = chain\<lparr>compression := (compression chain)
                   \<lparr>ratio := min (ratio (compression chain)) 3\<rparr>\<rparr>;
         chain = chain\<lparr>compression := (compression chain)
                   \<lparr>attack := max (attack (compression chain)) 5\<rparr>\<rparr>
     in chain)"

definition enhanceForDrums ::
    "MacroProcessingResult \<Rightarrow> MixerSettings \<Rightarrow> MacroProcessingResult" where
  "enhanceForDrums chain settings =
    (let chain =
           (if punch settings > 50 then
              chain\<lparr>compression := (compression chain)
                \<lparr>attack := min (attack (compression chain)) 3\<rparr>\<rparr>
            else chain)
     in if air settings > 60 then
          chain\<lparr>eqCurve := eqCurve chain @
            [\<lparr>frequency = 10000, gain = - 1, q = 15 / 10,
              band_type = bell, eq_enabled = True\<rparr>]\<rparr>
        else chain)"

definition getPerRoleChain :: "StemRole \<Rightarrow> MixerSettings \<Rightarrow> MacroProcessingResult" where
  "getPerRoleChain role settings =
    (let baseChain = processSettingsToChain settings (Some role)
     in case role of
          KICK \<Rightarrow> enhanceForKick baseChain settings
        | SNARE \<Rightarrow> enhanceForSnare baseChain settings
        | BASS \<Rightarrow> enhanceForBass baseChain settings
        | VOCAL \<Rightarrow> enhanceForVocal baseChain settings
        | LEAD \<Rightarrow> enhanceForVocal baseChain settings
        | DRUMS \<Rightarrow> enhanceForDrums baseChain settings
        | _ \<Rightarrow> baseChain)"

text \<open>Concrete settings taken from the UI layer: the initial state of App.tsx and the
  ``Club-Ready'' intent preset of ControlPanel.tsx.\<close>

definition initialMixerSettings :: MixerSettings where
  "initialMixerSettings =
     \<lparr>previewLUFS = - 18, streamLUFS = - 14, peakCeiling = - 1, punch = 0,
      warmth = 0, clarity = 0, air = 0, width = 0, reverb = 0\<rparr>"

definition clubReady :: MixerSettings where
  "clubReady =
     \<lparr>previewLUFS = - 16, streamLUFS = - 12, peakCeiling = - (5 / 10), punch = 100,
      warmth = 40, clarity = 60, air = 60, width = 70, reverb = 30\<rparr>"

text \<open>The clamp the specification describes at the mapper boundary (no source function
  performs it): each of the six macros is forced into \<open>[0, 100]\<close>.\<close>

definition clamp100 :: "real \<Rightarrow> real" where
  "clamp100 v = max 0 (min 100 v)"

definition clampMacros :: "MixerSettings \<Rightarrow> MixerSettings" where
  "clampMacros s =
     s\<lparr>punch := clamp100 (punch s), warmth := clamp100 (warmth s),
       clarity := clamp100 (clarity s), air := clamp100 (air s),
       width := clamp100 (width s), reverb := clamp100 (reverb s)\<rparr>"

section \<open>Stem analysis (stemAnalysis.ts)\<close>

record EnergyDistribution =
  subBass :: real
  bass :: real
  lowMid :: real
  mid :: real
  highMid :: real
  presence :: real
  brilliance :: real

record AudioFeatures =
  spectralCentroid :: real
  spectralRolloff :: real
  zeroCrossingRate :: real
  mfcc :: "real list"
  chromaFeatures :: "real list"
  tempoPeaks :: "real list"
  dynamicRange :: real
  fundamentalFreq :: real
  harmonicRatio :: real
  percussiveRatio :: real
  energyDistribution :: EnergyDistribution

record StemAnalysisResult =
  stemId :: string
  detectedRole :: StemRole
  confidence :: real
  features :: AudioFeatures
  reasoning :: string

definition hasVocalFormants :: "AudioFeatures \<Rightarrow> bool" where
  "hasVocalFormants f =
     (mid (energyDistribution f) > 25 / 100 \<and> highMid (energyDistribution f) > 2 / 10
      \<and> presence (energyDistribution f) > 15 / 100)"

definition isFullSpectrum :: "EnergyDistribution \<Rightarrow> bool" where
  "isFullSpectrum e =
     (let bands = [subBass e, bass e, lowMid e, mid e, highMid e, presence e, brilliance e];
          nonZeroBands = length (filter (\<lambda>val. val > 5 / 100) bands)
      in nonZeroBands \<ge> 5)"

definition hasMultiplePercussiveElements :: "AudioFeatures \<Rightarrow> bool" where
  "hasMultiplePercussiveElements f =
     (let percussiveBands = length (filter (\<lambda>b. b)
            [bass (energyDistribution f) > 2 / 10,
             lowMid (energyDistribution f) > 2 / 10,
             brilliance (energyDistribution f) > 2 / 10])
      in percussiveBands \<ge> 2 \<and> length (tempoPeaks f) > 3)"

text \<open>\<open>addIf c w score\<close> is the statement \<open>if (c) { score += w }\<close>.\<close>

definition addIf :: "bool \<Rightarrow> real \<Rightarrow> real \<Rightarrow> real" where
  "addIf c w score = (if c then score + w else score)"

text \<open>
  The score table of \<open>detectRole\<close>, in the insertion order of the object literal, which
  is the order \<open>Object.entries\<close> visits it (all keys are non-numeric strings).
\<close>

definition roleScores :: "AudioFeatures \<Rightarrow> (StemRole \<times> real) list" where
  "roleScores f =
    (let e = energyDistribution f;
         kick = addIf (subBass e > 3 / 10 \<and> bass e > 4 / 10) (6 / 10) 0;
         kick = addIf (spectralCentroid f < 200 \<and> percussiveRatio f > 7 / 10) (4 / 10) kick;
         kick = addIf (fundamentalFreq f \<ge> 40 \<and> fundamentalFreq f \<le> 80) (3 / 10) kick;
         snare = addIf (lowMid e > 3 / 10 \<and> presence e > 3 / 10) (5 / 10) 0;
         snare = addIf (spectralCentroid f \<ge> 200 \<and> spectralCentroid f \<le> 1000
                        \<and> percussiveRatio f > 6 / 10) (4 / 10) snare;
         snare = addIf (dynamicRange f > 20) (2 / 10) snare;
         hihat = addIf (brilliance e > 4 / 10 \<and> presence e > 3 / 10) (6 / 10) 0;
         hihat = addIf (spectralCentroid f > 3000 \<and> percussiveRatio f > 8 / 10) (4 / 10) hihat;
         bassScore = addIf (bass e > 5 / 10 \<and> subBass e > 2 / 10) (6 / 10) 0;
         bassScore = addIf (fundamentalFreq f \<ge> 40 \<and> fundamentalFreq f \<le> 200
                            \<and> percussiveRatio f < 4 / 10) (4 / 10) bassScore;
         bassScore = addIf (spectralCentroid f < 300) (3 / 10) bassScore;
         vocal = addIf (mid e > 3 / 10 \<and> highMid e > 3 / 10) (5 / 10) 0;
         vocal = addIf (spectralCentroid f \<ge> 500 \<and> spectralCentroid f \<le> 2000) (4 / 10) vocal;
         vocal = addIf (hasVocalFormants f) (4 / 10) vocal;
         lead = addIf (mid e > 25 / 100 \<and> highMid e > 25 / 100) (4 / 10) 0;
         lead = addIf (spectralCentroid f \<ge> 400 \<and> spectralCentroid f \<le> 3000) (3 / 10) lead;
         lead = addIf (harmonicRatio f > 6 / 10) (3 / 10) lead;
         pad = addIf (percussiveRatio f < 2 / 10 \<and> dynamicRange f < 10) (5 / 10) 0;
         pad = addIf (isFullSpectrum e) (4 / 10) pad;
         drums = addIf (percussiveRatio f > 6 / 10 \<and> dynamicRange f > 15) (4 / 10) 0;
         drums = addIf (hasMultiplePercussiveElements f) (5 / 10) drums
     in [(KICK, kick), (SNARE, snare), (HIHAT, hihat), (BASS, bassScore), (VOCAL, vocal),
         (LEAD, lead), (PAD, pad), (DRUMS, drums), (PERCUSSION, 0), (OTHER, 1 / 10)])"

text \<open>The \<open>forEach\<close> over the entries, carrying the pair of \<open>maxScore\<close> and the detected role.\<close>

fun pickMax :: "(StemRole \<times> real) list \<Rightarrow> real \<times> StemRole \<Rightarrow> real \<times> StemRole" where
  "pickMax [] st = st"
| "pickMax ((role, score) # es) (maxScore, detected) =
     (if score > maxScore then pickMax es (score, role)
      else pickMax es (maxScore, detected))"

definition detectRole :: "AudioFeatures \<Rightarrow> StemRole" where
  "detectRole f = snd (pickMax (roleScores f) (0, OTHER))"

definition calculateConfidence :: "AudioFeatures \<Rightarrow> StemRole \<Rightarrow> real" where
  "calculateConfidence f role =
    (let e = energyDistribution f;
         conf =
           (case role of
              KICK \<Rightarrow> addIf (spectralCentroid f < 150) (2 / 10)
                        (addIf (subBass e > 4 / 10) (3 / 10) (5 / 10))
            | SNARE \<Rightarrow> addIf (percussiveRatio f > 7 / 10) (2 / 10)
                         (addIf (lowMid e > 3 / 10 \<and> presence e > 2 / 10) (3 / 10) (5 / 10))
            | BASS \<Rightarrow> addIf (spectralCentroid f < 250) (2 / 10)
                        (addIf (bass e > 5 / 10) (3 / 10) (5 / 10))
            | VOCAL \<Rightarrow> addIf (mid e > 3 / 10) (1 / 10)
                         (addIf (hasVocalFormants f) (4 / 10) (5 / 10))
            | _ \<Rightarrow> 3 / 10)
     in min 1 (max (1 / 10) conf))"

text \<open>
  \<open>generateReasoning\<close> formats numbers with \<open>Number.prototype.toFixed\<close>, a host
  function; it is the parameter \<open>toFixed\<close> (value, then number of digits).
\<close>

definition generateReasoning ::
    "(real \<Rightarrow> nat \<Rightarrow> string) \<Rightarrow> AudioFeatures \<Rightarrow> StemRole \<Rightarrow> string" where
  "generateReasoning toFixed f role =
    (let e = energyDistribution f
     in case role of
          KICK \<Rightarrow> ''Strong sub-bass energy ('' @ toFixed (subBass e * 100) 1
                  @ ''%), low spectral centroid ('' @ toFixed (spectralCentroid f) 0
                  @ ''Hz), high percussive content ('' @ toFixed (percussiveRatio f * 100) 1
                  @ ''%)''
        | SNARE \<Rightarrow> ''Mid-range energy with presence peaks, percussive transients (''
                  @ toFixed (percussiveRatio f * 100) 1 @ ''%), spectral centroid at ''
                  @ toFixed (spectralCentroid f) 0 @ ''Hz''
        | BASS \<Rightarrow> ''Dominant bass frequencies ('' @ toFixed (bass e * 100) 1
                  @ ''%), low spectral centroid ('' @ toFixed (spectralCentroid f) 0
                  @ ''Hz), sustained character''
        | VOCAL \<Rightarrow> ''Mid-frequency dominance with vocal formant structure, spectral centroid at ''
                  @ toFixed (spectralCentroid f) 0 @ ''Hz, harmonic content''
        | HIHAT \<Rightarrow> ''High-frequency dominance ('' @ toFixed (brilliance e * 100) 1
                  @ ''%), very percussive ('' @ toFixed (percussiveRatio f * 100) 1
                  @ ''%), spectral centroid > 3kHz''
        | _ \<Rightarrow> ''Mixed frequency content, spectral centroid at ''
                  @ toFixed (spectralCentroid f) 0 @ ''Hz, moderate characteristics'')"

definition getDefaultFeatures :: AudioFeatures where
  "getDefaultFeatures =
     \<lparr>spectralCentroid = 1000, spectralRolloff = 5000, zeroCrossingRate = 1 / 10,
      mfcc = replicate 13 0, chromaFeatures = replicate 12 (83 / 1000), tempoPeaks = [],
      dynamicRange = 20, fundamentalFreq = 440, harmonicRatio = 5 / 10,
      percussiveRatio = 3 / 10,
      energyDistribution =
        \<lparr>subBass = 1 / 10, bass = 15 / 100, lowMid = 15 / 100, mid = 25 / 100,
         highMid = 15 / 100, presence = 1 / 10, brilliance = 1 / 10\<rparr>\<rparr>"

text \<open>
  \<open>analyzeStems\<close>. Feature extraction runs on the host's audio objects and may throw;
  it is the parameter \<open>extractAudioFeatures\<close>, returning \<open>Inl\<close> for a thrown error.
  \<open>analyzeStem\<close> is the body of the loop: the \<open>try\<close> block and its \<open>catch\<close>.
\<close>

record 'b StemInput =
  stem_id :: string
  buffer :: 'b

definition analyzeStem ::
    "('b \<Rightarrow> 'e + AudioFeatures) \<Rightarrow> (real \<Rightarrow> nat \<Rightarrow> string) \<Rightarrow> 'b StemInput
      \<Rightarrow> StemAnalysisResult" where
  "analyzeStem extractAudioFeatures toFixed stem =
    (case extractAudioFeatures (buffer stem) of
       Inr fs \<Rightarrow>
         (let role = detectRole fs;
              conf = calculateConfidence fs role;
              reason = generateReasoning toFixed fs role
          in \<lparr>stemId = stem_id stem, detectedRole = role, confidence = conf,
              features = fs, reasoning = reason\<rparr>)
     | Inl err \<Rightarrow>
         \<lparr>stemId = stem_id stem, detectedRole = OTHER, confidence = 1 / 10,
          features = getDefaultFeatures,
          reasoning = ''Analysis failed, assigned generic role''\<rparr>)"

fun analyzeLoop ::
    "('b \<Rightarrow> 'e + AudioFeatures) \<Rightarrow> (real \<Rightarrow> nat \<Rightarrow> string) \<Rightarrow> 'b StemInput list
      \<Rightarrow> StemAnalysisResult list \<Rightarrow> StemAnalysisResult list" where
  "analyzeLoop ext toFixed [] results = results"
| "analyzeLoop ext toFixed (stem # rest) results =
     analyzeLoop ext toFixed rest (results @ [analyzeStem ext toFixed stem])"

definition analyzeStems ::
    "('b \<Rightarrow> 'e + AudioFeatures) \<Rightarrow> (real \<Rightarrow> nat \<Rightarrow> string) \<Rightarrow> 'b StemInput list
      \<Rightarrow> StemAnalysisResult list" where
  "analyzeStems ext toFixed audioBuffers = analyzeLoop ext toFixed audioBuffers []"

section \<open>Saturation curve (audioEffectsEngine.ts)\<close>

text \<open>
  \<open>createSaturationCurve\<close> fills a table of 44100 samples; entry \<open>i\<close> is the shaped value
  of \<open>x = i * 2 / samples - 1\<close>. The character is a string, and an unknown character
  keeps \<open>y = x\<close>. \<open>Math.sign\<close> is \<open>sgn\<close>. The rounding of the stored values to single
  precision is not modelled.
\<close>

definition createSaturationCurve :: "real \<Rightarrow> string \<Rightarrow> real list" where
  "createSaturationCurve drv chr =
    (let samples = (44100 :: nat)
     in map (\<lambda>i.
          (let x = (real i * 2) / real samples - 1;
               y = x
           in if chr = ''tube'' then sgn x * tanh (\<bar>x\<bar> * (1 + drv * (5 / 10)))
              else if chr = ''tape'' then tanh (x * (1 + drv * (3 / 10)))
              else if chr = ''transistor''
                then sgn x * min (\<bar>x\<bar> * (1 + drv * (8 / 10))) (95 / 100)
              else y))
        [0..<samples])"

section \<open>Masking analyzer (processingChainManager.ts)\<close>

datatype ConflictLevel = low | medium | high

record MaskingHeatmap =
  stems :: "string list"
  frequencies :: "real list"
  maskingMatrix :: "real list list"
  conflictLevel :: ConflictLevel

text \<open>\<open>MaskingAnalyzer.analyze\<close> has no parameter.\<close>

definition analyze :: MaskingHeatmap where
  "analyze =
     \<lparr>stems = [''kick'', ''bass'', ''vocal''],
      frequencies = [20, 50, 100, 200, 500, 1000, 2000, 5000, 10000, 20000],
      maskingMatrix =
        [[0, 2 / 10, 1 / 10, 0, 0, 0, 0, 0, 0, 0],
         [3 / 10, 0, 5 / 10, 2 / 10, 0, 0, 0, 0, 0, 0],
         [0, 0, 1 / 10, 2 / 10, 3 / 10, 4 / 10, 2 / 10, 1 / 10, 0, 0]],
      conflictLevel = medium\<rparr>"

section \<open>Sidechain ducker (sidechainDucker.ts)\<close>

text \<open>
  The gain of the target stem is a Web Audio \<open>AudioParam\<close>, an object of the host and not
  of this repository. Its automation is modelled after the Web Audio specification of
  \<open>setTargetAtTime(target, startTime, timeConstant)\<close>: from \<open>startTime\<close> on the value
  approaches \<open>target\<close> exponentially,
  \<open>v(t) = target + (v0 - target) * exp (- (t - startTime) / timeConstant)\<close>, where \<open>v0\<close> is
  the value the parameter had at \<open>startTime\<close>; a later call replaces the running
  automation. Time is a real number of seconds, \<open>audioContext.currentTime\<close> is the
  argument \<open>now\<close> of each operation.
\<close>

record AudioParam =
  p_start :: real
  p_target :: real
  p_t0 :: real
  p_tau :: real

definition valueAt :: "AudioParam \<Rightarrow> real \<Rightarrow> real" where
  "valueAt p t =
     (if t \<le> p_t0 p then p_start p
      else p_target p + (p_start p - p_target p) * exp (- (t - p_t0 p) / p_tau p))"

definition setTargetAtTime :: "AudioParam \<Rightarrow> real \<Rightarrow> real \<Rightarrow> real \<Rightarrow> AudioParam" where
  "setTargetAtTime p target startTime timeConstant =
     \<lparr>p_start = valueAt p startTime, p_target = target, p_t0 = startTime,
      p_tau = timeConstant\<rparr>"

text \<open>The gain of a fresh \<open>GainNode\<close>: constant 1.\<close>

definition createGain :: AudioParam where
  "createGain = \<lparr>p_start = 1, p_target = 1, p_t0 = 0, p_tau = 1\<rparr>"

record DuckingSettings =
  duck_enabled :: bool
  sourceFreqMin :: real
  sourceFreqMax :: real
  targetStem :: string
  sourceStem :: string
  assistantValue :: real
  duck_threshold :: real
  duck_ratio :: real
  duck_attack :: real
  duck_release :: real

definition createDefaultDucking :: DuckingSettings where
  "createDefaultDucking =
     \<lparr>duck_enabled = False, sourceFreqMin = 1000, sourceFreqMax = 4000, targetStem = [],
      sourceStem = [], assistantValue = 8 / 10, duck_threshold = - 20, duck_ratio = 4,
      duck_attack = 1, duck_release = 100\<rparr>"

text \<open>
  The state of a \<open>SidechainDucker\<close> with its envelope follower: \<open>sourceStemNode\<close> tells
  whether the source node is set, \<open>targetStemNode\<close> is the gain parameter of the target
  node (\<open>None\<close> for \<open>null\<close>), \<open>onLevelChange\<close> tells whether the follower's callback is
  installed, \<open>sensitivity\<close> is the follower's sensitivity.
\<close>

record SidechainDucker =
  dsettings :: DuckingSettings
  sourceStemNode :: bool
  targetStemNode :: "AudioParam option"
  onLevelChange :: bool
  sensitivity :: real
  isActive :: bool

definition newSidechainDucker :: "DuckingSettings \<Rightarrow> SidechainDucker" where
  "newSidechainDucker initialSettings =
     \<lparr>dsettings = initialSettings, sourceStemNode = False, targetStemNode = None,
      onLevelChange = False, sensitivity = 8 / 10, isActive = False\<rparr>"

definition updateDucking :: "SidechainDucker \<Rightarrow> SidechainDucker" where
  "updateDucking d =
     (if \<not> duck_enabled (dsettings d) \<or> \<not> sourceStemNode d \<or> targetStemNode d = None
      then d
      else d\<lparr>onLevelChange := True, isActive := True\<rparr>)"

definition disconnect :: "SidechainDucker \<Rightarrow> SidechainDucker" where
  "disconnect d = d\<lparr>sourceStemNode := False, targetStemNode := None, isActive := False\<rparr>"

definition connectSource :: "SidechainDucker \<Rightarrow> SidechainDucker" where
  "connectSource d =
     (let d = (if sourceStemNode d then disconnect d else d)
      in updateDucking (d\<lparr>sourceStemNode := True\<rparr>))"

definition connectTarget :: "SidechainDucker \<Rightarrow> SidechainDucker" where
  "connectTarget d = updateDucking (d\<lparr>targetStemNode := Some createGain\<rparr>)"

definition enable :: "SidechainDucker \<Rightarrow> SidechainDucker" where
  "enable d = updateDucking (d\<lparr>dsettings := (dsettings d)\<lparr>duck_enabled := True\<rparr>\<rparr>)"

definition disable :: "SidechainDucker \<Rightarrow> real \<Rightarrow> SidechainDucker" where
  "disable d now =
     (let d = d\<lparr>dsettings := (dsettings d)\<lparr>duck_enabled := False\<rparr>\<rparr>;
          d = (case targetStemNode d of
                 Some g \<Rightarrow> d\<lparr>targetStemNode := Some (setTargetAtTime g 1 now (5 / 100))\<rparr>
               | None \<Rightarrow> d)
      in d\<lparr>isActive := False\<rparr>)"

text \<open>The callback that \<open>updateDucking\<close> installs, called with a level at time \<open>now\<close>.\<close>

definition levelChanged :: "SidechainDucker \<Rightarrow> real \<Rightarrow> real \<Rightarrow> SidechainDucker" where
  "levelChanged d level now =
     (case targetStemNode d of
        None \<Rightarrow> d
      | Some g \<Rightarrow>
          (let duckingAmount = level * assistantValue (dsettings d);
               targetGain = 1 - duckingAmount
           in d\<lparr>targetStemNode :=
                Some (setTargetAtTime g (max (1 / 10) targetGain) now (1 / 100))\<rparr>))"

text \<open>One tick of the follower's 10 ms interval timer, with the measured \<open>rms\<close>.\<close>

definition monitor :: "SidechainDucker \<Rightarrow> real \<Rightarrow> real \<Rightarrow> SidechainDucker" where
  "monitor d rms now =
     (if \<not> onLevelChange d then d
      else (let scaledLevel = rms * sensitivity d in levelChanged d scaledLevel now))"

text \<open>The \<open>targetGain\<close> that \<open>getAnalysisData\<close> reports, read at time \<open>t\<close>.\<close>

definition targetGainAt :: "SidechainDucker \<Rightarrow> real \<Rightarrow> real" where
  "targetGainAt d t = (case targetStemNode d of Some g \<Rightarrow> valueAt g t | None \<Rightarrow> 1)"

text \<open>
  A ducker built from the default settings, with source and target connected, enabled,
  after one follower tick with full-scale level at time 0.
\<close>

definition duckedExample :: SidechainDucker where
  "duckedExample =
     monitor (enable (connectTarget (connectSource (newSidechainDucker createDefaultDucking))))
       1 0"

section \<open>Field projections of the base mapping\<close>

lemma processSettingsToChain_limiter:
  "limiterSettings (processSettingsToChain s r) = getDefaultLimiter"
  by (simp add: processSettingsToChain_def Let_def)

lemma processSettingsToChain_stereoWidth:
  "stereoWidth (processSettingsToChain s r) =
     (if width s \<noteq> 0
      then \<lparr>sw_width = mapRange (width s) 0 100 50 150, bassMonoFreq = 120,
            sideLowCut = 100, sw_enabled = True\<rparr>
      else getDefaultStereoWidth)"
  by (simp add: processSettingsToChain_def Let_def)

lemma processSettingsToChain_compression:
  "compression (processSettingsToChain s r) =
     (if punch s > 0
      then \<lparr>threshold = mapRange (punch s) 0 100 (- 3) (- 15),
            ratio = mapRange (punch s) 0 100 (13 / 10) (21 / 10),
            attack = max (if isPercussive r then mapRange (punch s) 0 100 30 10
                          else mapRange (punch s) 0 100 30 15) 20,
            release = max (mapRange (punch s) 0 100 50 150) 100,
            makeupGain = mapRange (punch s) 0 100 0 3,
            comp_enabled = (punch s > 5)\<rparr>
      else getDefaultCompression)"
  by (simp add: processSettingsToChain_def Let_def if_distrib [of compression] cong: if_cong)

lemma processSettingsToChain_saturation:
  "saturation (processSettingsToChain s r) =
     (if punch s > 0
      then (if warmth s > 0
            then \<lparr>drive = max (mapRange (warmth s) 0 100 0 2) (5 / 10),
                  character = tape,
                  mix = mapRange (warmth s) 0 100 0 25,
                  sat_enabled = (warmth s > 10)\<rparr>
            else \<lparr>drive = 5 / 10, character = tape, mix = 0, sat_enabled = False\<rparr>)
      else (if warmth s > 0
            then \<lparr>drive = mapRange (warmth s) 0 100 0 2, character = tube,
                  mix = mapRange (warmth s) 0 100 0 25,
                  sat_enabled = (warmth s > 10)\<rparr>
            else getDefaultSaturation))"
  by (simp add: processSettingsToChain_def Let_def getDefaultSaturation_def
        if_distrib [of saturation] cong: if_cong)

lemma processSettingsToChain_reverbSend:
  "reverbSend (processSettingsToChain s r) = reverb s"
  by (simp add: processSettingsToChain_def Let_def if_distrib [of reverbSend] cong: if_cong)

lemma processSettingsToChain_eqCurve:
  "eqCurve (processSettingsToChain s r) =
     (if clarity s > 0
      then \<lparr>frequency = 8000, gain = mapRange (clarity s) 0 100 0 4, q = 7 / 10,
            band_type = highshelf, eq_enabled = True\<rparr> #
           (if clarity s > 50
            then [\<lparr>frequency = 350, gain = mapRange (clarity s) 50 100 0 (- 2),
                   q = 12 / 10, band_type = bell, eq_enabled = True\<rparr>]
            else [])
      else []) @
     (if warmth s > 0
      then [\<lparr>frequency = 160, gain = mapRange (warmth s) 0 100 0 2, q = 7 / 10,
             band_type = lowshelf, eq_enabled = True\<rparr>,
            \<lparr>frequency = 4000, gain = mapRange (warmth s) 0 100 0 (- 3), q = 1,
             band_type = bell, eq_enabled = True\<rparr>]
      else []) @
     (if air s \<noteq> 0
      then [\<lparr>frequency = 14000, gain = mapRange (air s) 0 100 0 3, q = 5 / 10,
             band_type = highshelf, eq_enabled = True\<rparr>]
      else [])"
  by (simp add: processSettingsToChain_def Let_def if_distrib [of eqCurve] cong: if_cong)


section \<open>Per-role enhancement\<close>

text \<open>
  Claim C7. For role bass and every settings value, whatever the width macro is, the
  stereo width of the per-role result is at most 100.
\<close>

theorem bass_width_mono_safe:
  "sw_width (stereoWidth (getPerRoleChain BASS s)) \<le> 100"
  by (simp add: getPerRoleChain_def enhanceForBass_def Let_def)

text \<open>
  Claim C6. With punch at 100 and role kick, the punch mapping gives an attack of 10 ms,
  the base mapping leaves the attack at the glue floor of 20 ms, and the kick enhancer,
  which runs afterwards, brings the attack down to 5 ms and lifts the ratio to at least 3.
\<close>

theorem kick_punch100:
  assumes "punch s = 100"
  shows "mapRange (punch s) 0 100 30 10 = 10
       \<and> attack (compression (processSettingsToChain s (Some KICK))) = 20
       \<and> attack (compression (getPerRoleChain KICK s)) = 5
       \<and> attack (compression (getPerRoleChain KICK s)) \<le> 5
       \<and> ratio (compression (getPerRoleChain KICK s)) \<ge> 3"
  using assms
  by (simp add: getPerRoleChain_def enhanceForKick_def Let_def
        processSettingsToChain_compression isPercussive_def mapRange_def)

theorem kick_punch100_witness:
  "punch clubReady = 100
   \<and> mapRange (punch clubReady) 0 100 30 10 = 10
   \<and> attack (compression (processSettingsToChain clubReady (Some KICK))) = 20
   \<and> attack (compression (getPerRoleChain KICK clubReady)) = 5
   \<and> attack (compression (getPerRoleChain KICK clubReady)) \<le> 5
   \<and> ratio (compression (getPerRoleChain KICK clubReady)) \<ge> 3"
proof -
  have p: "punch clubReady = 100" by (simp add: clubReady_def)
  show ?thesis using p kick_punch100 [OF p] by simp
qed

section \<open>Base mapping: limiter, clamping, warmth saturation\<close>

lemma getPerRoleChain_limiter:
  "limiterSettings (getPerRoleChain role s) = getDefaultLimiter"
  by (cases role)
     (simp_all add: getPerRoleChain_def enhanceForKick_def enhanceForSnare_def
        enhanceForBass_def enhanceForVocal_def enhanceForDrums_def Let_def
        processSettingsToChain_limiter)

text \<open>
  Claim C2, as stated, fails: with the initial settings of the application the peak
  ceiling is -1 dBFS while the mapped limiter ceiling is -0.1 dBFS.
\<close>

theorem limiter_ceiling_counterexample:
  "ceiling (limiterSettings (processSettingsToChain initialMixerSettings None))
     \<noteq> peakCeiling initialMixerSettings"
  by (simp add: processSettingsToChain_limiter getDefaultLimiter_def initialMixerSettings_def)

text \<open>
  Claim C2, amended. For every settings value and every optional role the limiter of the
  result is the fixed default: enabled, ceiling -0.1 dBFS, release 50 ms, lookahead 5 ms.
  No macro and no other settings field drives it; in particular changing
  \<open>peakCeiling\<close> leaves it unchanged. The same holds after per-role enhancement.
\<close>

theorem limiter_fixed_defaults:
  "limiterSettings (processSettingsToChain s r) =
     \<lparr>ceiling = - (1 / 10), lim_release = 50, lookahead = 5, lim_enabled = True\<rparr>
   \<and> lim_enabled (limiterSettings (processSettingsToChain s r))
   \<and> limiterSettings (processSettingsToChain (s\<lparr>peakCeiling := c\<rparr>) r) =
       limiterSettings (processSettingsToChain s r)
   \<and> limiterSettings (getPerRoleChain role s) =
       \<lparr>ceiling = - (1 / 10), lim_release = 50, lookahead = 5, lim_enabled = True\<rparr>"
  by (simp add: processSettingsToChain_limiter getPerRoleChain_limiter getDefaultLimiter_def)

text \<open>
  Claim C4, as stated, fails: no clamping takes place. With punch at 200 the compressor
  threshold is extrapolated to -27 dB, whereas the clamped settings give -15 dB.
\<close>

theorem clamp_counterexample:
  "processSettingsToChain (initialMixerSettings\<lparr>punch := 200\<rparr>) None
     \<noteq> processSettingsToChain (clampMacros (initialMixerSettings\<lparr>punch := 200\<rparr>)) None"
proof
  assume "processSettingsToChain (initialMixerSettings\<lparr>punch := 200\<rparr>) None
     = processSettingsToChain (clampMacros (initialMixerSettings\<lparr>punch := 200\<rparr>)) None"
  then have "threshold (compression (processSettingsToChain (initialMixerSettings\<lparr>punch := 200\<rparr>) None))
     = threshold (compression (processSettingsToChain (clampMacros (initialMixerSettings\<lparr>punch := 200\<rparr>)) None))"
    by simp
  then show False
    by (simp add: processSettingsToChain_compression clampMacros_def clamp100_def
          initialMixerSettings_def mapRange_def)
qed

lemma clamp100_id: "0 \<le> v \<Longrightarrow> v \<le> 100 \<Longrightarrow> clamp100 v = v"
  by (simp add: clamp100_def)

lemma clamp100_pos: "v \<le> 100 \<Longrightarrow> (0 < clamp100 v) = (0 < v)"
  by (auto simp add: clamp100_def)

lemma clamp100_pos_id: "v \<le> 100 \<Longrightarrow> 0 < v \<Longrightarrow> clamp100 v = v"
  by (simp add: clamp100_def)

lemma clampMacros_fields:
  "punch (clampMacros s) = clamp100 (punch s)"
  "warmth (clampMacros s) = clamp100 (warmth s)"
  "clarity (clampMacros s) = clamp100 (clarity s)"
  "air (clampMacros s) = clamp100 (air s)"
  "width (clampMacros s) = clamp100 (width s)"
  "reverb (clampMacros s) = clamp100 (reverb s)"
  by (simp_all add: clampMacros_def)

text \<open>
  Claim C4, amended. The mapper is a total function and never reports an error, but it
  does not clamp. Its output equals the output on the clamped settings whenever punch,
  warmth and clarity do not exceed 100 (their \<open>> 0\<close> guards treat a negative value as 0)
  and air, width and reverb already lie in \<open>[0, 100]\<close>.
\<close>

theorem clamp_agrees_in_range:
  assumes "punch s \<le> 100" "warmth s \<le> 100" "clarity s \<le> 100"
    and "0 \<le> air s" "air s \<le> 100" "0 \<le> width s" "width s \<le> 100"
    and "0 \<le> reverb s" "reverb s \<le> 100"
  shows "processSettingsToChain (clampMacros s) r = processSettingsToChain s r"
proof (rule MacroProcessingResult.equality)
  show "eqCurve (processSettingsToChain (clampMacros s) r) = eqCurve (processSettingsToChain s r)"
    using assms
    by (simp add: processSettingsToChain_eqCurve clampMacros_fields clamp100_id
          clamp100_pos clamp100_pos_id)
  show "compression (processSettingsToChain (clampMacros s) r) = compression (processSettingsToChain s r)"
    using assms
    by (simp add: processSettingsToChain_compression clampMacros_fields clamp100_pos clamp100_pos_id)
  show "saturation (processSettingsToChain (clampMacros s) r) = saturation (processSettingsToChain s r)"
    using assms
    by (simp add: processSettingsToChain_saturation clampMacros_fields clamp100_pos clamp100_pos_id)
  show "stereoWidth (processSettingsToChain (clampMacros s) r) = stereoWidth (processSettingsToChain s r)"
    using assms
    by (simp add: processSettingsToChain_stereoWidth clampMacros_fields clamp100_id)
  show "limiterSettings (processSettingsToChain (clampMacros s) r) = limiterSettings (processSettingsToChain s r)"
    by (simp add: processSettingsToChain_limiter)
  show "reverbSend (processSettingsToChain (clampMacros s) r) = reverbSend (processSettingsToChain s r)"
    using assms
    by (simp add: processSettingsToChain_reverbSend clampMacros_fields clamp100_id)
  show "MacroProcessingResult.more (processSettingsToChain (clampMacros s) r)
      = MacroProcessingResult.more (processSettingsToChain s r)"
    by simp
qed

theorem clamp_agrees_in_range_witness:
  "punch (clubReady\<lparr>punch := - 20\<rparr>) \<le> 100 \<and> warmth (clubReady\<lparr>punch := - 20\<rparr>) \<le> 100
   \<and> clarity (clubReady\<lparr>punch := - 20\<rparr>) \<le> 100
   \<and> 0 \<le> air (clubReady\<lparr>punch := - 20\<rparr>) \<and> air (clubReady\<lparr>punch := - 20\<rparr>) \<le> 100
   \<and> 0 \<le> width (clubReady\<lparr>punch := - 20\<rparr>) \<and> width (clubReady\<lparr>punch := - 20\<rparr>) \<le> 100
   \<and> 0 \<le> reverb (clubReady\<lparr>punch := - 20\<rparr>) \<and> reverb (clubReady\<lparr>punch := - 20\<rparr>) \<le> 100
   \<and> clampMacros (clubReady\<lparr>punch := - 20\<rparr>) \<noteq> clubReady\<lparr>punch := - 20\<rparr>
   \<and> processSettingsToChain (clampMacros (clubReady\<lparr>punch := - 20\<rparr>)) (Some KICK)
       = processSettingsToChain (clubReady\<lparr>punch := - 20\<rparr>) (Some KICK)"
proof -
  have h: "punch (clubReady\<lparr>punch := - 20\<rparr>) \<le> 100"
    "warmth (clubReady\<lparr>punch := - 20\<rparr>) \<le> 100"
    "clarity (clubReady\<lparr>punch := - 20\<rparr>) \<le> 100"
    "0 \<le> air (clubReady\<lparr>punch := - 20\<rparr>)" "air (clubReady\<lparr>punch := - 20\<rparr>) \<le> 100"
    "0 \<le> width (clubReady\<lparr>punch := - 20\<rparr>)" "width (clubReady\<lparr>punch := - 20\<rparr>) \<le> 100"
    "0 \<le> reverb (clubReady\<lparr>punch := - 20\<rparr>)" "reverb (clubReady\<lparr>punch := - 20\<rparr>) \<le> 100"
    by (simp_all add: clubReady_def)
  have d: "punch (clampMacros (clubReady\<lparr>punch := - 20\<rparr>)) \<noteq> punch (clubReady\<lparr>punch := - 20\<rparr>)"
    by (simp add: clampMacros_fields clamp100_def)
  then have "clampMacros (clubReady\<lparr>punch := - 20\<rparr>) \<noteq> clubReady\<lparr>punch := - 20\<rparr>"
    by metis
  then show ?thesis
    using h clamp_agrees_in_range [OF h, of "Some KICK"] by simp
qed

text \<open>
  Claim C5, as stated, fails when punch is positive: the glue block then overrides the
  character with tape and raises the drive to at least 0.5. At warmth 20 and punch 50
  the character is tape and the drive is 0.5, not the mapped 0.4.
\<close>

theorem saturation_tube_counterexample:
  "warmth (initialMixerSettings\<lparr>punch := 50, warmth := 20\<rparr>) > 10
   \<and> character (saturation (processSettingsToChain
          (initialMixerSettings\<lparr>punch := 50, warmth := 20\<rparr>) None)) \<noteq> tube
   \<and> drive (saturation (processSettingsToChain
          (initialMixerSettings\<lparr>punch := 50, warmth := 20\<rparr>) None))
       \<noteq> mapRange 20 0 100 0 2"
  by (simp add: processSettingsToChain_saturation initialMixerSettings_def mapRange_def)

text \<open>
  Claim C5, amended. For every settings value with warmth above 10 the saturation of
  the base mapping is enabled and its mix is the linear map of warmth (0 to 0, 100 to 25).
  When punch is not positive the character is tube and the drive is the linear map of
  warmth (0 to 0, 100 to 2); when punch is positive the character is tape and the drive
  is the larger of that linear map and 0.5.
\<close>

theorem warmth_saturation:
  assumes "warmth s > 10"
  shows "sat_enabled (saturation (processSettingsToChain s r))
       \<and> mix (saturation (processSettingsToChain s r)) = warmth s * 25 / 100
       \<and> character (saturation (processSettingsToChain s r)) =
           (if punch s > 0 then tape else tube)
       \<and> drive (saturation (processSettingsToChain s r)) =
           (if punch s > 0 then max (warmth s * 2 / 100) (5 / 10) else warmth s * 2 / 100)"
  using assms by (simp add: processSettingsToChain_saturation mapRange_def)

theorem warmth_saturation_witness:
  "warmth (initialMixerSettings\<lparr>warmth := 20\<rparr>) > 10
   \<and> saturation (processSettingsToChain (initialMixerSettings\<lparr>warmth := 20\<rparr>) None) =
       \<lparr>drive = 2 / 5, character = tube, mix = 5, sat_enabled = True\<rparr>
   \<and> warmth clubReady > 10
   \<and> saturation (processSettingsToChain clubReady None) =
       \<lparr>drive = 4 / 5, character = tape, mix = 10, sat_enabled = True\<rparr>"
proof -
  have a: "warmth (initialMixerSettings\<lparr>warmth := 20\<rparr>) > 10" by simp
  have b: "warmth clubReady > 10" by (simp add: clubReady_def)
  have p: "\<not> punch (initialMixerSettings\<lparr>warmth := 20\<rparr>) > 0"
    by (simp add: initialMixerSettings_def)
  have q: "punch clubReady > 0" "warmth clubReady = 40" by (simp_all add: clubReady_def)
  show ?thesis
    using a b p q warmth_saturation [OF a, of None] warmth_saturation [OF b, of None]
    by (intro conjI SaturationSettings.equality) simp_all
qed

section \<open>Role classifier and stem analysis\<close>

lemma pickMax_role:
  "snd (pickMax es (m, r)) = r
   \<or> (\<exists>(k, v) \<in> set es. k = snd (pickMax es (m, r)) \<and> v > m)"
proof (induction es arbitrary: m r)
  case Nil
  then show ?case by simp
next
  case (Cons kv es)
  obtain k v where kv: "kv = (k, v)" by (cases kv)
  show ?case
  proof (cases "v > m")
    case True
    with Cons.IH [of v k] kv show ?thesis by fastforce
  next
    case False
    with Cons.IH [of m r] kv show ?thesis by fastforce
  qed
qed

lemma pickMax_result:
  "(pickMax es (m, r) = (m, r) \<and> (\<forall>(k, v) \<in> set es. v \<le> m))
   \<or> ((snd (pickMax es (m, r)), fst (pickMax es (m, r))) \<in> set es
       \<and> m < fst (pickMax es (m, r))
       \<and> (\<forall>(k, v) \<in> set es. v \<le> fst (pickMax es (m, r))))"
proof (induction es arbitrary: m r)
  case Nil
  then show ?case by simp
next
  case (Cons kv es)
  obtain k v where kv: "kv = (k, v)" by (cases kv)
  show ?case
  proof (cases "v > m")
    case True
    with Cons.IH [of v k] kv show ?thesis by fastforce
  next
    case False
    with Cons.IH [of m r] kv show ?thesis by fastforce
  qed
qed

lemma addIf_cases: "addIf c w x = x \<or> addIf c w x = x + w"
  by (simp add: addIf_def)

lemma roleScores_shape:
  "\<exists>a b c d e g h i.
     roleScores f = [(KICK, a), (SNARE, b), (HIHAT, c), (BASS, d), (VOCAL, e), (LEAD, g),
                     (PAD, h), (DRUMS, i), (PERCUSSION, 0), (OTHER, 1 / 10)]
     \<and> (a = 0 \<or> 1 / 5 \<le> a) \<and> (b = 0 \<or> 1 / 5 \<le> b) \<and> (c = 0 \<or> 1 / 5 \<le> c)
     \<and> (d = 0 \<or> 1 / 5 \<le> d) \<and> (e = 0 \<or> 1 / 5 \<le> e) \<and> (g = 0 \<or> 1 / 5 \<le> g)
     \<and> (h = 0 \<or> 1 / 5 \<le> h) \<and> (i = 0 \<or> 1 / 5 \<le> i)"
  unfolding roleScores_def Let_def
  by (intro exI conjI, rule refl) (simp_all add: addIf_def)

lemma detectRole_other_iff:
  "(detectRole f = OTHER) =
     (map snd (roleScores f) = [0, 0, 0, 0, 0, 0, 0, 0, 0, 1 / 10])"
proof -
  obtain a b c d e g h i where
    rs: "roleScores f = [(KICK, a), (SNARE, b), (HIHAT, c), (BASS, d), (VOCAL, e), (LEAD, g),
                     (PAD, h), (DRUMS, i), (PERCUSSION, 0), (OTHER, 1 / 10)]"
    and dich: "a = 0 \<or> 1 / 5 \<le> a" "b = 0 \<or> 1 / 5 \<le> b" "c = 0 \<or> 1 / 5 \<le> c"
      "d = 0 \<or> 1 / 5 \<le> d" "e = 0 \<or> 1 / 5 \<le> e" "g = 0 \<or> 1 / 5 \<le> g"
      "h = 0 \<or> 1 / 5 \<le> h" "i = 0 \<or> 1 / 5 \<le> i"
    using roleScores_shape [of f] by blast
  show ?thesis
  proof
    assume o: "detectRole f = OTHER"
    have "\<forall>(k, v) \<in> set (roleScores f). v \<le> 1 / 10"
      using pickMax_result [of "roleScores f" 0 OTHER] o
      unfolding detectRole_def rs by auto
    then have "a \<le> 1 / 10" "b \<le> 1 / 10" "c \<le> 1 / 10" "d \<le> 1 / 10" "e \<le> 1 / 10"
      "g \<le> 1 / 10" "h \<le> 1 / 10" "i \<le> 1 / 10"
      unfolding rs by simp_all
    with dich have "a = 0" "b = 0" "c = 0" "d = 0" "e = 0" "g = 0" "h = 0" "i = 0"
      by linarith+
    then show "map snd (roleScores f) = [0, 0, 0, 0, 0, 0, 0, 0, 0, 1 / 10]"
      unfolding rs by simp
  next
    assume "map snd (roleScores f) = [0, 0, 0, 0, 0, 0, 0, 0, 0, 1 / 10]"
    then have "a = 0" "b = 0" "c = 0" "d = 0" "e = 0" "g = 0" "h = 0" "i = 0"
      unfolding rs by simp_all
    then show "detectRole f = OTHER"
      unfolding detectRole_def rs by simp
  qed
qed

lemma roleScores_keys:
  "map fst (roleScores f) =
     [KICK, SNARE, HIHAT, BASS, VOCAL, LEAD, PAD, DRUMS, PERCUSSION, OTHER]
   \<and> map_of (roleScores f) PERCUSSION = Some 0
   \<and> map_of (roleScores f) OTHER = Some (1 / 10)"
  by (simp add: roleScores_def Let_def)

text \<open>
  Claim C10. For every feature set the classifier returns one of kick, snare, hihat,
  bass, vocal, lead, pad, drums or other. Percussion, arpeggio, harmony and fx are never
  returned: arpeggio, harmony and fx are not in the score table, and percussion stays at
  score 0, which never exceeds the running maximum that starts at 0. Every rule that
  fires lifts its role to at least 0.2, above the 0.1 of other, so other is returned
  exactly when no rule fires.
\<close>

theorem detectRole_range:
  "detectRole f \<in> {KICK, SNARE, HIHAT, BASS, VOCAL, LEAD, PAD, DRUMS, OTHER}
   \<and> detectRole f \<noteq> PERCUSSION \<and> detectRole f \<noteq> ARPEGGIO
   \<and> detectRole f \<noteq> HARMONY \<and> detectRole f \<noteq> FX
   \<and> map_of (roleScores f) PERCUSSION = Some 0
   \<and> map_of (roleScores f) ARPEGGIO = None
   \<and> map_of (roleScores f) HARMONY = None
   \<and> map_of (roleScores f) FX = None
   \<and> (detectRole f = OTHER) =
       (map snd (roleScores f) = [0, 0, 0, 0, 0, 0, 0, 0, 0, 1 / 10])"
proof -
  have "detectRole f = OTHER
        \<or> (\<exists>(k, v) \<in> set (roleScores f). k = detectRole f \<and> v > 0)"
    unfolding detectRole_def by (rule pickMax_role)
  then have "detectRole f \<in> {KICK, SNARE, HIHAT, BASS, VOCAL, LEAD, PAD, DRUMS, OTHER}"
    by (auto simp add: roleScores_def Let_def)
  moreover have "map_of (roleScores f) PERCUSSION = Some 0"
    "map_of (roleScores f) ARPEGGIO = None"
    "map_of (roleScores f) HARMONY = None"
    "map_of (roleScores f) FX = None"
    by (simp_all add: roleScores_def Let_def)
  moreover note detectRole_other_iff [of f]
  ultimately show ?thesis by auto
qed

lemma analyzeLoop_map:
  "analyzeLoop ext fmt bufs acc = acc @ map (analyzeStem ext fmt) bufs"
  by (induction bufs arbitrary: acc) simp_all

lemma analyzeStems_map:
  "analyzeStems ext fmt bufs = map (analyzeStem ext fmt) bufs"
  by (simp add: analyzeStems_def analyzeLoop_map)

text \<open>
  Claim C9. If feature extraction throws for the stem at position \<open>i\<close>, the analysis
  still returns one result per input stem; the result for stem \<open>i\<close> is role other with
  confidence 0.1, the default feature set and the reasoning string
  ``Analysis failed, assigned generic role''; and every stem whose extraction succeeds
  gets its regular classification.
\<close>

theorem analyzeStems_failure_isolated:
  assumes "i < length bufs" and "ext (buffer (bufs ! i)) = Inl err"
  shows "length (analyzeStems ext fmt bufs) = length bufs
       \<and> analyzeStems ext fmt bufs ! i =
           \<lparr>stemId = stem_id (bufs ! i), detectedRole = OTHER, confidence = 1 / 10,
            features = getDefaultFeatures,
            reasoning = ''Analysis failed, assigned generic role''\<rparr>
       \<and> (\<forall>j < length bufs. \<forall>fs. ext (buffer (bufs ! j)) = Inr fs \<longrightarrow>
             analyzeStems ext fmt bufs ! j =
               \<lparr>stemId = stem_id (bufs ! j), detectedRole = detectRole fs,
                confidence = calculateConfidence fs (detectRole fs), features = fs,
                reasoning = generateReasoning fmt fs (detectRole fs)\<rparr>)"
  using assms by (simp add: analyzeStems_map analyzeStem_def Let_def)

theorem analyzeStems_failure_isolated_witness:
  "(0::nat) < length [\<lparr>stem_id = ''a'', buffer = True\<rparr>, \<lparr>stem_id = ''b'', buffer = False\<rparr>]
   \<and> (\<lambda>b. if b then Inl ''decode error'' else Inr getDefaultFeatures)
        (buffer ([\<lparr>stem_id = ''a'', buffer = True\<rparr>, \<lparr>stem_id = ''b'', buffer = False\<rparr>] ! 0))
       = Inl ''decode error''
   \<and> length (analyzeStems (\<lambda>b. if b then Inl ''decode error'' else Inr getDefaultFeatures)
         (\<lambda>v n. ''?'')
         [\<lparr>stem_id = ''a'', buffer = True\<rparr>, \<lparr>stem_id = ''b'', buffer = False\<rparr>]) = 2
   \<and> analyzeStems (\<lambda>b. if b then Inl ''decode error'' else Inr getDefaultFeatures)
         (\<lambda>v n. ''?'')
         [\<lparr>stem_id = ''a'', buffer = True\<rparr>, \<lparr>stem_id = ''b'', buffer = False\<rparr>] ! 0 =
       \<lparr>stemId = ''a'', detectedRole = OTHER, confidence = 1 / 10,
        features = getDefaultFeatures,
        reasoning = ''Analysis failed, assigned generic role''\<rparr>
   \<and> analyzeStems (\<lambda>b. if b then Inl ''decode error'' else Inr getDefaultFeatures)
         (\<lambda>v n. ''?'')
         [\<lparr>stem_id = ''a'', buffer = True\<rparr>, \<lparr>stem_id = ''b'', buffer = False\<rparr>] ! 1 =
       \<lparr>stemId = ''b'', detectedRole = detectRole getDefaultFeatures,
        confidence = calculateConfidence getDefaultFeatures (detectRole getDefaultFeatures),
        features = getDefaultFeatures,
        reasoning = generateReasoning (\<lambda>v n. ''?'') getDefaultFeatures
                      (detectRole getDefaultFeatures)\<rparr>"
proof -
  let ?stems = "[\<lparr>stem_id = ''a'', buffer = True\<rparr>, \<lparr>stem_id = ''b'', buffer = False\<rparr>]"
  let ?ext = "\<lambda>b. if b then Inl ''decode error'' else Inr getDefaultFeatures"
  have i: "(0::nat) < length ?stems" by simp
  have e: "?ext (buffer (?stems ! 0)) = Inl ''decode error''" by simp
  note t = analyzeStems_failure_isolated [where ext = ?ext and fmt = "\<lambda>v n. ''?''", OF i e]
  from t have len: "length (analyzeStems ?ext (\<lambda>v n. ''?'') ?stems) = 2" by simp
  from t have z: "analyzeStems ?ext (\<lambda>v n. ''?'') ?stems ! 0 =
      \<lparr>stemId = ''a'', detectedRole = OTHER, confidence = 1 / 10,
       features = getDefaultFeatures,
       reasoning = ''Analysis failed, assigned generic role''\<rparr>" by simp
  from t have a: "\<forall>j < length ?stems. \<forall>fs. ?ext (buffer (?stems ! j)) = Inr fs \<longrightarrow>
             analyzeStems ?ext (\<lambda>v n. ''?'') ?stems ! j =
               \<lparr>stemId = stem_id (?stems ! j), detectedRole = detectRole fs,
                confidence = calculateConfidence fs (detectRole fs), features = fs,
                reasoning = generateReasoning (\<lambda>v n. ''?'') fs (detectRole fs)\<rparr>"
    by (rule conjunct2 [OF conjunct2])
  have o: "analyzeStems ?ext (\<lambda>v n. ''?'') ?stems ! 1 =
               \<lparr>stemId = ''b'', detectedRole = detectRole getDefaultFeatures,
                confidence = calculateConfidence getDefaultFeatures (detectRole getDefaultFeatures),
                features = getDefaultFeatures,
                reasoning = generateReasoning (\<lambda>v n. ''?'') getDefaultFeatures
                   (detectRole getDefaultFeatures)\<rparr>"
    using a [rule_format, of 1 getDefaultFeatures] by simp
  from i e len z o show ?thesis by (intro conjI)
qed

section \<open>Saturation curve at zero drive\<close>

lemma tanh_one_le: "tanh (1::real) \<le> 4 / 5"
proof -
  have e: "exp (1::real) \<le> 3" by (rule exp_le)
  have "exp (2::real) = exp 1 * exp 1" by (simp flip: exp_add)
  also have "\<dots> \<le> 3 * 3" using e by (intro mult_mono) simp_all
  finally have e2: "exp (2::real) \<le> 9" by simp
  have pos: "0 < exp (2::real)" by simp
  have "exp (- 2 :: real) = 1 / exp 2" by (simp add: exp_minus inverse_eq_divide)
  also have "\<dots> \<ge> 1 / 9" using e2 pos by (simp add: field_simps)
  finally have u: "1 / 9 \<le> exp (- 2 :: real)" .
  have "tanh (1::real) = (1 - exp (- 2)) / (1 + exp (- 2))"
    using tanh_real_altdef [of 1] by simp
  also have "\<dots> \<le> 4 / 5" using u by (simp add: field_simps)
  finally show ?thesis .
qed

lemma sgn_tanh_abs: "sgn x * tanh \<bar>x\<bar> = tanh (x::real)"
  by (cases "x < 0") (auto simp add: sgn_real_def)

lemma sgn_abs_tanh: "sgn x * \<bar>tanh x\<bar> = tanh (x::real)"
  using sgn_tanh_abs [of x] by simp

lemma curve_nth:
  assumes "i < 44100"
  shows "createSaturationCurve drv chr ! i =
     (let x = (real i * 2) / 44100 - 1
      in if chr = ''tube'' then sgn x * tanh (\<bar>x\<bar> * (1 + drv * (5 / 10)))
         else if chr = ''tape'' then tanh (x * (1 + drv * (3 / 10)))
         else if chr = ''transistor''
           then sgn x * min (\<bar>x\<bar> * (1 + drv * (8 / 10))) (95 / 100)
         else x)"
  using assms by (simp add: createSaturationCurve_def Let_def)

text \<open>
  Claim C3, as stated, fails. At drive 0 the first sample (\<open>i = 0\<close>, \<open>x = -1\<close>) of the
  tube and tape curves is \<open>- tanh 1\<close>, at least 0.2 away from \<open>x\<close>, and that of the
  transistor curve is -0.95, 0.05 away from \<open>x\<close>.
\<close>

theorem saturation_identity_counterexample:
  "\<bar>createSaturationCurve 0 ''tube'' ! 0 - (real 0 * 2 / 44100 - 1)\<bar> \<ge> 1 / 5
   \<and> \<bar>createSaturationCurve 0 ''tape'' ! 0 - (real 0 * 2 / 44100 - 1)\<bar> \<ge> 1 / 5
   \<and> \<bar>createSaturationCurve 0 ''transistor'' ! 0 - (real 0 * 2 / 44100 - 1)\<bar> = 1 / 20"
proof -
  have z: "(0::nat) < 44100" by simp
  have t: "tanh (- 1 :: real) = - tanh 1" by simp
  show ?thesis
    using tanh_one_le tanh_real_lt_1 [of 1]
    by (simp add: curve_nth [OF z] Let_def t del: tanh_real_neg_iff tanh_minus)
qed

text \<open>
  Claim C3, amended. For drive 0 the curve has 44100 samples and at every sampled point
  \<open>x = i * 2 / 44100 - 1\<close> the tube and the tape curve are \<open>tanh x\<close>, and the transistor
  curve is \<open>x\<close> where \<open>|x| \<le> 0.95\<close> and \<open>sgn x * 0.95\<close> beyond. So the zero-drive curve is
  the identity only for the transistor character, and only inside \<open>[-0.95, 0.95]\<close>.
\<close>

theorem saturation_zero_drive:
  assumes "i < 44100"
  shows "length (createSaturationCurve 0 chr) = 44100
   \<and> createSaturationCurve 0 ''tube'' ! i = tanh (real i * 2 / 44100 - 1)
   \<and> createSaturationCurve 0 ''tape'' ! i = tanh (real i * 2 / 44100 - 1)
   \<and> createSaturationCurve 0 ''transistor'' ! i =
       (if \<bar>real i * 2 / 44100 - 1\<bar> \<le> 95 / 100 then real i * 2 / 44100 - 1
        else sgn (real i * 2 / 44100 - 1) * (95 / 100))"
proof -
  have l: "length (createSaturationCurve 0 chr) = 44100"
    by (simp add: createSaturationCurve_def Let_def)
  have a: "createSaturationCurve 0 ''tube'' ! i = tanh (real i * 2 / 44100 - 1)"
    by (simp add: curve_nth [OF assms] Let_def sgn_tanh_abs sgn_abs_tanh)
  have b: "createSaturationCurve 0 ''tape'' ! i = tanh (real i * 2 / 44100 - 1)"
    by (simp add: curve_nth [OF assms] Let_def)
  have c: "createSaturationCurve 0 ''transistor'' ! i =
       (if \<bar>real i * 2 / 44100 - 1\<bar> \<le> 95 / 100 then real i * 2 / 44100 - 1
        else sgn (real i * 2 / 44100 - 1) * (95 / 100))"
    by (simp add: curve_nth [OF assms] Let_def min_def sgn_real_def abs_real_def)
  from l a b c show ?thesis by (intro conjI)
qed

theorem saturation_zero_drive_witness:
  "(22050::nat) < 44100
   \<and> createSaturationCurve 0 ''tube'' ! 22050 = 0
   \<and> createSaturationCurve 0 ''tape'' ! 22050 = 0
   \<and> createSaturationCurve 0 ''transistor'' ! 22050 = 0
   \<and> (0::nat) < 44100
   \<and> createSaturationCurve 0 ''transistor'' ! 0 = - (95 / 100)"
proof -
  have m: "(22050::nat) < 44100" and z: "(0::nat) < 44100" by simp_all
  show ?thesis
    using saturation_zero_drive [OF m] saturation_zero_drive [OF z] by simp
qed

section \<open>Masking analyzer\<close>

text \<open>
  Claim C1, as stated, fails. The analyzer receives no stems; its fixed result has the
  entry 0.2 in row 0, column 1, and its conflict level is medium, not low.
\<close>

theorem masking_placeholder_counterexample:
  "maskingMatrix analyze ! 0 ! 1 = 2 / 10 \<and> maskingMatrix analyze ! 0 ! 1 \<noteq> 0
   \<and> conflictLevel analyze \<noteq> low"
  by (simp add: analyze_def)

text \<open>
  Claim C1, amended. The masking analyzer takes no stems and returns the same heatmap
  whatever the spectra of the stems are: three stems (kick, bass, vocal), one matrix row
  per stem and one column per listed frequency, entries between 0 and 0.5 of which
  eleven are not zero, and conflict level medium.
\<close>

theorem masking_placeholder:
  "stems analyze = [''kick'', ''bass'', ''vocal'']
   \<and> length (maskingMatrix analyze) = length (stems analyze)
   \<and> map length (maskingMatrix analyze) = replicate 3 (length (frequencies analyze))
   \<and> Min (set (concat (maskingMatrix analyze))) = 0
   \<and> Max (set (concat (maskingMatrix analyze))) = 1 / 2
   \<and> length (filter (\<lambda>v. v \<noteq> 0) (concat (maskingMatrix analyze))) = 11
   \<and> conflictLevel analyze = medium"
  by (simp add: analyze_def numeral_3_eq_3)

section \<open>Sidechain ducker: restoring the gain\<close>

lemma duckedExample_state:
  "duckedExample =
     \<lparr>dsettings = createDefaultDucking\<lparr>duck_enabled := True\<rparr>, sourceStemNode = True,
      targetStemNode = Some \<lparr>p_start = 1, p_target = 9 / 25, p_t0 = 0, p_tau = 1 / 100\<rparr>,
      onLevelChange = True, sensitivity = 8 / 10, isActive = True\<rparr>"
  by (simp add: duckedExample_def monitor_def levelChanged_def enable_def connectTarget_def
        connectSource_def newSidechainDucker_def updateDucking_def createDefaultDucking_def
        createGain_def setTargetAtTime_def valueAt_def Let_def)

lemma targetGainAt_disable:
  "targetGainAt (disable d now) t =
     (if t \<le> now then targetGainAt d now
      else 1 - (1 - targetGainAt d now) * exp (- (t - now) / (5 / 100)))"
  by (cases "targetStemNode d")
     (simp_all add: targetGainAt_def disable_def Let_def setTargetAtTime_def valueAt_def
        algebra_simps)

lemma exp_minus_one_ge: "1 / 3 \<le> exp (- 1 :: real)"
proof -
  have "exp (1::real) \<le> 3" by (rule exp_le)
  moreover have "0 < exp (1::real)" by simp
  ultimately have "1 / 3 \<le> 1 / exp (1::real)" by (simp add: field_simps)
  then show ?thesis by (simp add: exp_minus inverse_eq_divide)
qed

lemma exp_minus_100_le: "exp (- 100 :: real) \<le> 1 / 2"
proof -
  have "(2::real) \<le> exp 1" using exp_ge_add_one_self [of "1::real"] by simp
  then have "1 / exp (1::real) \<le> 1 / 2" by (simp add: field_simps)
  then have "exp (- 1 :: real) \<le> 1 / 2" by (simp add: exp_minus inverse_eq_divide)
  moreover have "exp (- 100 :: real) \<le> exp (- 1)" by simp
  ultimately show ?thesis by linarith
qed

lemma duckedExample_gain_1: "targetGainAt duckedExample 1 = 9 / 25 + 16 / 25 * exp (- 100)"
  by (simp add: duckedExample_state targetGainAt_def valueAt_def)

text \<open>
  Claim C8, as stated, fails. In the example the ducker is disabled at time 1 s while the
  target gain is close to 0.36; 50 ms later the gain is still at most 0.9, not 1.0.
\<close>

theorem disable_not_unity_counterexample:
  "targetGainAt (disable duckedExample 1) (1 + 50 / 1000) \<le> 9 / 10"
proof -
  define x where "x = (16 / 25) * (1 - exp (- 100 :: real)) * exp (- 1)"
  have "targetGainAt (disable duckedExample 1) (1 + 50 / 1000)
        = 1 - (1 - targetGainAt duckedExample 1) * exp (- 1)"
    by (simp add: targetGainAt_disable)
  also have "1 - targetGainAt duckedExample 1 = (16 / 25) * (1 - exp (- 100))"
    by (simp add: duckedExample_gain_1 field_simps)
  finally have eq: "targetGainAt (disable duckedExample 1) (1 + 50 / 1000) = 1 - x"
    unfolding x_def .
  have "(16 / 25) * (1 / 2) * (1 / 3) \<le> x"
    unfolding x_def using exp_minus_100_le exp_minus_one_ge by (intro mult_mono) simp_all
  then have "1 / 10 \<le> x" by simp
  with eq show ?thesis by linarith
qed

text \<open>
  Claim C8, amended. Let the target gain be at most 1 when \<open>disable\<close> is called at time
  \<open>now\<close>, and let no later automation be scheduled on it. Then the gain starts from its
  current value (no jump), follows \<open>1 - (1 - g) * exp (- (t - now) / 0.05)\<close>, never
  decreases, never exceeds 1, and approaches 1 with a time constant of 50 ms: after
  50 ms the remaining distance to 1 is the initial distance times \<open>exp (- 1)\<close>, and when
  the gain started below 1 it stays strictly below 1 at every later time.
\<close>

theorem disable_restores_exponentially:
  assumes "targetGainAt d now \<le> 1" and "now \<le> t" and "t \<le> t'"
  shows "targetGainAt (disable d now) now = targetGainAt d now
       \<and> targetGainAt (disable d now) t =
           1 - (1 - targetGainAt d now) * exp (- (t - now) / (5 / 100))
       \<and> targetGainAt (disable d now) t \<le> targetGainAt (disable d now) t'
       \<and> targetGainAt d now \<le> targetGainAt (disable d now) t
       \<and> targetGainAt (disable d now) t \<le> 1
       \<and> (if targetGainAt d now < 1 then targetGainAt (disable d now) t < 1
           else targetGainAt (disable d now) t = 1)
       \<and> 1 - targetGainAt (disable d now) (now + 50 / 1000) =
           (1 - targetGainAt d now) * exp (- 1)"
proof -
  let ?g = "targetGainAt d now"
  have gap: "0 \<le> 1 - ?g" using assms(1) by simp
  have f: "\<And>u. now \<le> u \<Longrightarrow>
             targetGainAt (disable d now) u = 1 - (1 - ?g) * exp (- (u - now) / (5 / 100))"
    by (simp add: targetGainAt_disable)
  have e_le1: "\<And>u. now \<le> u \<Longrightarrow> exp (- (u - now) / (5 / 100)) \<le> (1::real)"
    by simp
  have e_pos: "\<And>u. 0 < exp (- (u - now) / (5 / 100) :: real)" by simp
  have mono_e: "exp (- (t' - now) / (5 / 100)) \<le> exp (- (t - now) / (5 / 100) :: real)"
    using assms(3) by simp
  have c1: "targetGainAt (disable d now) now = ?g" by (simp add: targetGainAt_disable)
  have c2: "targetGainAt (disable d now) t = 1 - (1 - ?g) * exp (- (t - now) / (5 / 100))"
    using assms(2) by (rule f)
  have c2': "targetGainAt (disable d now) t' = 1 - (1 - ?g) * exp (- (t' - now) / (5 / 100))"
    using assms(2,3) by (intro f) simp
  have c3: "targetGainAt (disable d now) t \<le> targetGainAt (disable d now) t'"
    unfolding c2 c2' using mult_left_mono [OF mono_e gap] by simp
  have "(1 - ?g) * exp (- (t - now) / (5 / 100)) \<le> (1 - ?g) * 1"
    using mult_left_mono [OF e_le1 [OF assms(2)] gap] .
  then have c4: "?g \<le> targetGainAt (disable d now) t" unfolding c2 by simp
  have "0 \<le> (1 - ?g) * exp (- (t - now) / (5 / 100))"
    using gap e_pos [of t] by (intro mult_nonneg_nonneg) simp_all
  then have c5: "targetGainAt (disable d now) t \<le> 1" unfolding c2 by simp
  have c6: "if ?g < 1 then targetGainAt (disable d now) t < 1
            else targetGainAt (disable d now) t = 1"
  proof (cases "?g < 1")
    case True
    then have "0 < (1 - ?g) * exp (- (t - now) / (5 / 100))"
      using e_pos [of t] by (intro mult_pos_pos) simp_all
    with True show ?thesis unfolding c2 by simp
  next
    case False
    with assms(1) have "?g = 1" by simp
    with False show ?thesis unfolding c2 by simp
  qed
  have c7: "1 - targetGainAt (disable d now) (now + 50 / 1000) = (1 - ?g) * exp (- 1)"
    by (simp add: targetGainAt_disable)
  from c1 c2 c3 c4 c5 c6 c7 show ?thesis by (intro conjI)
qed

theorem disable_restores_exponentially_witness:
  "targetGainAt duckedExample 1 \<le> 1 \<and> (1::real) \<le> 105 / 100 \<and> (105 / 100 :: real) \<le> 2
   \<and> targetGainAt (disable duckedExample 1) 1 = targetGainAt duckedExample 1
   \<and> targetGainAt (disable duckedExample 1) (105 / 100)
       \<le> targetGainAt (disable duckedExample 1) 2
   \<and> targetGainAt (disable duckedExample 1) (105 / 100) < 1"
proof -
  have h: "targetGainAt duckedExample 1 \<le> 1"
    using exp_minus_100_le by (simp add: duckedExample_gain_1)
  have lt: "targetGainAt duckedExample 1 < 1"
    using exp_minus_100_le by (simp add: duckedExample_gain_1)
  have a: "(1::real) \<le> 105 / 100" and b: "(105 / 100 :: real) \<le> 2" by simp_all
  show ?thesis
    using h a b lt disable_restores_exponentially [OF h a b] by simp
qed

text \<open>
  \<open>disable\<close> leaves the follower's callback installed, so the next timer tick schedules a
  ducking target again. The amended claim above does not cover this.
\<close>

lemma disable_keeps_callback:
  "onLevelChange (disable d now) = onLevelChange d"
  by (cases "targetStemNode d") (simp_all add: disable_def Let_def)

lemma ducking_resumes_after_disable:
  "map_option p_target (targetStemNode (monitor (disable duckedExample 1) 1 (101 / 100)))
     = Some (9 / 25)"
  by (simp add: duckedExample_state monitor_def levelChanged_def disable_def Let_def
        setTargetAtTime_def createDefaultDucking_def)

end
